theory Spec2Isabelle
  imports Main "HOL-Library.Sublist" "HOL-Library.AList"
begin

section \<open>Python strings and values\<close>

text \<open>
  Text is modelled as \<^typ>\<open>string\<close>, a character being a code point from 0 to 255
  (ASCII and Latin-1). The case conversions and the whitespace test are those of Python's
  \<^verbatim>\<open>str\<close> on these code points. The capitals of \<^verbatim>\<open>CHR 0xB5\<close>, \<^verbatim>\<open>CHR 0xDF\<close> and
  \<^verbatim>\<open>CHR 0xFF\<close> lie beyond code point 255; \<open>upper_char\<close> leaves these three as they are.
\<close>

definition upper_letters :: string where
  "upper_letters =
     ''ABCDEFGHIJKLMNOPQRSTUVWXYZ'' @
     [CHR 0xC0, CHR 0xC1, CHR 0xC2, CHR 0xC3, CHR 0xC4, CHR 0xC5, CHR 0xC6, CHR 0xC7,
      CHR 0xC8, CHR 0xC9, CHR 0xCA, CHR 0xCB, CHR 0xCC, CHR 0xCD, CHR 0xCE, CHR 0xCF,
      CHR 0xD0, CHR 0xD1, CHR 0xD2, CHR 0xD3, CHR 0xD4, CHR 0xD5, CHR 0xD6, CHR 0xD8,
      CHR 0xD9, CHR 0xDA, CHR 0xDB, CHR 0xDC, CHR 0xDD, CHR 0xDE]"

definition lower_letters :: string where
  "lower_letters =
     ''abcdefghijklmnopqrstuvwxyz'' @
     [CHR 0xE0, CHR 0xE1, CHR 0xE2, CHR 0xE3, CHR 0xE4, CHR 0xE5, CHR 0xE6, CHR 0xE7,
      CHR 0xE8, CHR 0xE9, CHR 0xEA, CHR 0xEB, CHR 0xEC, CHR 0xED, CHR 0xEE, CHR 0xEF,
      CHR 0xF0, CHR 0xF1, CHR 0xF2, CHR 0xF3, CHR 0xF4, CHR 0xF5, CHR 0xF6, CHR 0xF8,
      CHR 0xF9, CHR 0xFA, CHR 0xFB, CHR 0xFC, CHR 0xFD, CHR 0xFE]"

definition lower_char :: "char \<Rightarrow> char" where
  "lower_char c = (case map_of (zip upper_letters lower_letters) c of None \<Rightarrow> c | Some l \<Rightarrow> l)"

definition upper_char :: "char \<Rightarrow> char" where
  "upper_char c = (case map_of (zip lower_letters upper_letters) c of None \<Rightarrow> c | Some u \<Rightarrow> u)"

text \<open>\<^verbatim>\<open>s.lower()\<close>\<close>

definition str_lower :: "string \<Rightarrow> string" where
  "str_lower s = map lower_char s"

text \<open>\<^verbatim>\<open>s.capitalize()\<close>: first character upper case, the rest lower case.\<close>

definition str_capitalize :: "string \<Rightarrow> string" where
  "str_capitalize s = (case s of [] \<Rightarrow> [] | c # cs \<Rightarrow> upper_char c # str_lower cs)"

text \<open>\<^verbatim>\<open>c.isspace()\<close>: tab, line feed, vertical tab, form feed, carriage return, the
  four separators 28 to 31, the blank, next line (133) and the no-break space (160).\<close>

definition isspace :: "char \<Rightarrow> bool" where
  "isspace c \<longleftrightarrow>
     c \<in> set [CHR 0x09, CHR 0x0A, CHR 0x0B, CHR 0x0C, CHR 0x0D,
                CHR 0x1C, CHR 0x1D, CHR 0x1E, CHR 0x1F, CHR '' '', CHR 0x85, CHR 0xA0]"

text \<open>\<^verbatim>\<open>s.split()\<close> with no argument: the maximal runs of non-whitespace characters, in
  order; \<open>tok\<close> is the token being read (reversed).\<close>

fun split_loop :: "string \<Rightarrow> string \<Rightarrow> string list" where
  "split_loop tok [] = (if tok = [] then [] else [rev tok])"
| "split_loop tok (c # cs) =
     (if isspace c then (if tok = [] then split_loop [] cs else rev tok # split_loop [] cs)
      else split_loop (c # tok) cs)"

definition str_split :: "string \<Rightarrow> string list" where
  "str_split s = split_loop [] s"

text \<open>\<^verbatim>\<open>kw in s\<close> on strings: \<open>kw\<close> occurs in \<open>s\<close> as a contiguous substring.\<close>

fun str_contains :: "string \<Rightarrow> string \<Rightarrow> bool" where
  "str_contains kw [] = (kw = [])"
| "str_contains kw (c # cs) = (prefix kw (c # cs) \<or> str_contains kw cs)"

text \<open>\<^verbatim>\<open>s.replace(a, b)\<close> for one-character \<open>a\<close> and \<open>b\<close>.\<close>

definition str_replace :: "char \<Rightarrow> char \<Rightarrow> string \<Rightarrow> string" where
  "str_replace a b s = map (\<lambda>c. if c = a then b else c) s"

text \<open>\<^verbatim>\<open>sep.join(parts)\<close>\<close>

fun str_join :: "string \<Rightarrow> string list \<Rightarrow> string" where
  "str_join sep [] = []"
| "str_join sep [p] = p"
| "str_join sep (p # q # ps) = p @ sep @ str_join sep (q # ps)"

text \<open>The values a JSON or YAML document can hold.\<close>

datatype pyval =
    PStr string
  | PNum int
  | PBool bool
  | PNone
  | PList "pyval list"
  | PDict "(string \<times> pyval) list"

text \<open>The exceptions the modelled code can raise.\<close>

datatype py_error = FileNotFoundError | YAMLError | KeyError | IndexError | AttributeError

definition bindE :: "'e + 'a \<Rightarrow> ('a \<Rightarrow> 'e + 'b) \<Rightarrow> 'e + 'b" where
  "bindE m f = (case m of Inl e \<Rightarrow> Inl e | Inr x \<Rightarrow> f x)"

text \<open>\<^verbatim>\<open>d[k]\<close> on a dict and \<^verbatim>\<open>xs[0]\<close> on a list.\<close>

definition getitem :: "('k \<times> 'v) list \<Rightarrow> 'k \<Rightarrow> py_error + 'v" where
  "getitem d k = (case map_of d k of None \<Rightarrow> Inl KeyError | Some v \<Rightarrow> Inr v)"

definition index0 :: "'a list \<Rightarrow> py_error + 'a" where
  "index0 xs = (case xs of [] \<Rightarrow> Inl IndexError | x # _ \<Rightarrow> Inr x)"

text \<open>\<^verbatim>\<open>d.get(k, default)\<close> where the field is optional.\<close>

definition get_default :: "'a option \<Rightarrow> 'a \<Rightarrow> 'a" where
  "get_default v d = (case v of None \<Rightarrow> d | Some x \<Rightarrow> x)"

section \<open>The olog documents and their loader\<close>

text \<open>
  The two YAML documents are not part of the sources; they are taken as the parsed values
  the loader receives. A document is a mapping whose key \<^verbatim>\<open>olog\<close> holds the section
  the loader reads; every key the code reads with \<^verbatim>\<open>.get\<close> is an optional field.
\<close>

record 'a yaml_doc =
  olog :: "'a option"

text \<open>A type of the aesthetic olog as written in the document. \<open>td_instances\<close> is
  \<open>None\<close> when the key \<^verbatim>\<open>instances\<close> is absent or its value is not a list.\<close>

record type_def =
  td_description :: "string option"
  td_instances :: "string list option"
  td_properties :: "(string \<times> pyval) list option"

record aesthetic_section =
  types :: "(string \<times> type_def) list option"

text \<open>An entry of the flattened taxonomy built by \<^verbatim>\<open>get_taxonomy\<close>.\<close>

record dimension =
  description :: string
  instances :: "string list"
  properties :: "(string \<times> pyval) list"

type_synonym taxonomy = "(string \<times> dimension) list"

text \<open>An archetype of the intentionality olog, with the keys the server reads.\<close>

record archetype =
  core_intention :: "string option"
  composition_principle :: "string option"
  why_this_works :: "string option"
  sensory_principles :: "string list option"
  proportion_rules :: "(string \<times> pyval) list option"
  design_intent_keywords :: "string list option"
  forbidden_combinations :: "pyval list option"
  examples :: "pyval list option"

type_synonym catalogue = "(string \<times> archetype) list"

record intentionality_section =
  archetype_instances :: "catalogue option"

type_synonym aesthetic_doc = "aesthetic_section yaml_doc"
type_synonym intentionality_doc = "intentionality_section yaml_doc"

text \<open>What opening and parsing one file gives.\<close>

datatype 'a file_result = Missing | Unparsable | Parsed 'a

text \<open>The fields of an \<^verbatim>\<open>OlogLoader\<close> object once \<^verbatim>\<open>_load_ologs\<close> has run.\<close>

record olog_loader =
  aesthetic_olog :: aesthetic_doc
  intentionality_olog :: intentionality_doc
  taxonomy_cache :: "taxonomy option"
  intent_mapping_cache :: "catalogue option"

definition read_yaml :: "'a file_result \<Rightarrow> py_error + 'a" where
  "read_yaml f =
     (case f of Missing \<Rightarrow> Inl FileNotFoundError | Unparsable \<Rightarrow> Inl YAMLError
      | Parsed d \<Rightarrow> Inr d)"

text \<open>\<^verbatim>\<open>OlogLoader.__init__\<close> with \<^verbatim>\<open>_load_ologs\<close>: the aesthetic file first, then the
  intentionality file; both errors are logged and raised again.\<close>

definition OlogLoader_init ::
  "aesthetic_doc file_result \<Rightarrow> intentionality_doc file_result \<Rightarrow> py_error + olog_loader" where
  "OlogLoader_init aesthetic_file intentionality_file =
     bindE (read_yaml aesthetic_file) (\<lambda>a.
     bindE (read_yaml intentionality_file) (\<lambda>i.
       Inr \<lparr>aesthetic_olog = a, intentionality_olog = i,
            taxonomy_cache = None, intent_mapping_cache = None\<rparr>))"

text \<open>The loop of \<^verbatim>\<open>get_taxonomy\<close> over \<^verbatim>\<open>types_dict.items()\<close>; a type is kept when it
  has an \<^verbatim>\<open>instances\<close> list, whatever the list holds.\<close>

fun flatten_types :: "(string \<times> type_def) list \<Rightarrow> taxonomy \<Rightarrow> taxonomy" where
  "flatten_types [] taxonomy = taxonomy"
| "flatten_types ((type_name, type_def) # rest) taxonomy =
     flatten_types rest
       (case td_instances type_def of
          Some xs \<Rightarrow>
            AList.update type_name
              \<lparr>description = get_default (td_description type_def) [],
               instances = xs,
               properties = get_default (td_properties type_def) []\<rparr> taxonomy
        | None \<Rightarrow> taxonomy)"

definition get_taxonomy :: "olog_loader \<Rightarrow> (py_error + taxonomy) \<times> olog_loader" where
  "get_taxonomy self =
     (case taxonomy_cache self of
        Some t \<Rightarrow> (Inr t, self)
      | None \<Rightarrow>
          (case olog (aesthetic_olog self) of
             None \<Rightarrow> (Inl KeyError, self)
           | Some sec \<Rightarrow>
               (let types_dict = get_default (types sec) [];
                    taxonomy = flatten_types types_dict []
                in (Inr taxonomy, self\<lparr>taxonomy_cache := Some taxonomy\<rparr>))))"

definition get_intentionality_instances ::
  "olog_loader \<Rightarrow> (py_error + catalogue) \<times> olog_loader" where
  "get_intentionality_instances self =
     (case intent_mapping_cache self of
        Some c \<Rightarrow> (Inr c, self)
      | None \<Rightarrow>
          (case olog (intentionality_olog self) of
             None \<Rightarrow> (Inl KeyError, self)
           | Some sec \<Rightarrow>
               (let insts = get_default (archetype_instances sec) []
                in (Inr insts, self\<lparr>intent_mapping_cache := Some insts\<rparr>))))"

text \<open>\<^verbatim>\<open>OlogLoader.get_archetype_rules\<close>: \<^verbatim>\<open>instances.get(archetype_name)\<close>.\<close>

definition loader_get_archetype_rules ::
  "olog_loader \<Rightarrow> string \<Rightarrow> (py_error + archetype option) \<times> olog_loader" where
  "loader_get_archetype_rules self archetype_name =
     (case get_intentionality_instances self of
        (Inl e, self') \<Rightarrow> (Inl e, self')
      | (Inr insts, self') \<Rightarrow> (Inr (map_of insts archetype_name), self'))"

section \<open>The server process (server.py)\<close>

text \<open>
  The state of the process: the module globals \<^verbatim>\<open>OLOG_LOADER\<close>, \<^verbatim>\<open>TAXONOMY\<close> and
  \<^verbatim>\<open>ARCHETYPES\<close>, the state of the global generator of the \<^verbatim>\<open>random\<close> module, and the
  function that the built-in \<^verbatim>\<open>hash\<close> computes on strings in this process. The
  interpreter fixes that function when it starts; it is a parameter of the model.
\<close>

datatype rng = Os_entropy | Seeded int

record process =
  str_hash :: "string \<Rightarrow> int"
  OLOG_LOADER :: olog_loader
  TAXONOMY :: taxonomy
  ARCHETYPES :: catalogue
  random_state :: rng

text \<open>Importing the module: lines 34 to 36.\<close>

definition module_init ::
  "(string \<Rightarrow> int) \<Rightarrow> aesthetic_doc file_result \<Rightarrow> intentionality_doc file_result \<Rightarrow>
   py_error + process" where
  "module_init h aesthetic_file intentionality_file =
     bindE (OlogLoader_init aesthetic_file intentionality_file) (\<lambda>l0.
       (case get_taxonomy l0 of
          (Inl e, _) \<Rightarrow> Inl e
        | (Inr taxonomy, l1) \<Rightarrow>
            (case get_intentionality_instances l1 of
               (Inl e, _) \<Rightarrow> Inl e
             | (Inr archetypes, l2) \<Rightarrow>
                 Inr \<lparr>str_hash = h, OLOG_LOADER = l2, TAXONOMY = taxonomy,
                      ARCHETYPES = archetypes, random_state = Os_entropy\<rparr>)))"

subsection \<open>Mapping a design intent to taxonomy choices\<close>

text \<open>A design intent is the dict the caller passes: any JSON value under any key.\<close>

type_synonym intent = "(string \<times> pyval) list"

record design_choices =
  head_shape :: string
  body_proportion :: string
  facial_style :: string
  color_triad :: string
  size_category :: string

text \<open>\<^verbatim>\<open>design_intent.get(key, "").lower()\<close>: a value that is not a string has no
  method \<^verbatim>\<open>lower\<close>.\<close>

definition get_lower :: "intent \<Rightarrow> string \<Rightarrow> py_error + string" where
  "get_lower design_intent key =
     (case map_of design_intent key of
        None \<Rightarrow> Inr (str_lower [])
      | Some (PStr s) \<Rightarrow> Inr (str_lower s)
      | Some _ \<Rightarrow> Inl AttributeError)"

text \<open>Line 65: \<^verbatim>\<open>OLOG_LOADER.aesthetic_olog['olog']['types']['ColorTriad']['instances'][0]\<close>,
  read from the document itself.\<close>

definition first_color_triad :: "aesthetic_doc \<Rightarrow> py_error + string" where
  "first_color_triad doc =
     (case olog doc of
        None \<Rightarrow> Inl KeyError
      | Some sec \<Rightarrow>
          (case types sec of
             None \<Rightarrow> Inl KeyError
           | Some ts \<Rightarrow>
               bindE (getitem ts ''ColorTriad'') (\<lambda>type_def.
                 (case td_instances type_def of
                    None \<Rightarrow> Inl KeyError
                  | Some xs \<Rightarrow> index0 xs))))"

text \<open>Lines 73 to 86; \<open>initial\<close> is \<^verbatim>\<open>head_shapes[0]\<close>, kept when no branch is taken.\<close>

definition select_head_shape :: "string \<Rightarrow> string \<Rightarrow> string \<Rightarrow> string" where
  "select_head_shape initial weight_feeling primary_shape =
     (if str_contains ''droop'' weight_feeling \<or> str_contains ''droop'' primary_shape
        then ''elongated_teardrop''
      else if str_contains ''curved'' primary_shape \<or> str_contains ''flowing'' primary_shape
        then ''cat_like_curved''
      else if str_contains ''blob'' primary_shape \<or> str_contains ''amorphous'' primary_shape
        then ''minimalist_blob''
      else if str_contains ''geometric'' primary_shape \<or> str_contains ''sharp'' primary_shape
        then ''simplified_geometric''
      else if str_contains ''wide'' primary_shape \<or> str_contains ''flat'' primary_shape
        then ''wide_and_flat''
      else if str_contains ''pointed'' primary_shape \<or> str_contains ''spike'' primary_shape
        then ''ovoid_with_point''
      else if str_contains ''round'' weight_feeling \<or> str_contains ''soft'' weight_feeling
        then ''large_round_orb''
      else initial)"

text \<open>Lines 91 to 102.\<close>

definition select_body_proportion :: "string \<Rightarrow> string \<Rightarrow> string" where
  "select_body_proportion weight_feeling size_implication =
     (if str_contains ''tiny'' size_implication \<or> str_contains ''insignificant'' size_implication
           \<or> str_contains ''miniature'' weight_feeling
        then ''tiny_torso_large_head''
      else if str_contains ''weighted'' weight_feeling \<or> str_contains ''heavy'' weight_feeling
           \<or> str_contains ''grounded'' weight_feeling
        then ''body_focused_30_70''
      else if str_contains ''fluid'' weight_feeling \<or> str_contains ''flowing'' weight_feeling
           \<or> str_contains ''extended'' weight_feeling
        then ''extended_and_fluid''
      else if str_contains ''limbless'' weight_feeling \<or> str_contains ''blob'' weight_feeling
        then ''limbless_blob''
      else if str_contains ''head-heavy'' size_implication
           \<or> str_contains ''top-heavy'' weight_feeling
        then ''head_dominant_80_20''
      else ''balanced_cute_50_50'')"

definition color_mapping :: "(string \<times> string) list" where
  "color_mapping =
     [(''muted'', ''dusty_rose_sage_cream''),
      (''dusty'', ''dusty_rose_sage_cream''),
      (''desaturated'', ''dusty_rose_sage_cream''),
      (''warm'', ''butter_yellow_peach_blue''),
      (''cozy'', ''butter_yellow_peach_blue''),
      (''cool'', ''lavender_mint_sky_blue''),
      (''ethereal'', ''pale_lavender_pearl_white''),
      (''vivid'', ''coral_mint_cream''),
      (''pastel'', ''soft_pink_lavender_mint'')]"

definition facial_mapping :: "(string \<times> string) list" where
  "facial_mapping =
     [(''joyful_character_archetype'', ''dot_eyes_curved_smile''),
      (''melancholic_character_archetype'', ''closed_happy_eyes''),
      (''anxious_character_archetype'', ''worried_upturned_eyes''),
      (''sleepy_character_archetype'', ''closed_curved_eyes''),
      (''mischievous_character_archetype'', ''sparkle_mischievous_grin''),
      (''dreamy_character_archetype'', ''wide_dreamy_eyes''),
      (''determined_character_archetype'', ''focused_straight_gaze'')]"

text \<open>Lines 136 to 145.\<close>

definition select_size_category :: "string \<Rightarrow> string" where
  "select_size_category size_implication =
     (if str_contains ''tiny'' size_implication \<or> str_contains ''pocket'' size_implication
           \<or> str_contains ''miniature'' size_implication
        then ''small_plush_toy''
      else if str_contains ''small'' size_implication \<or> str_contains ''delicate'' size_implication
        then ''small_decorative''
      else if str_contains ''medium'' size_implication \<or> str_contains ''standard'' size_implication
        then ''medium_standard''
      else if str_contains ''large'' size_implication \<or> str_contains ''prominent'' size_implication
        then ''large_display''
      else ''medium_standard'')"

text \<open>\<^verbatim>\<open>_map_intent_to_design_choices\<close>. The lookups and the reads of the intent are in
  the order of the source, so that the first exception raised is the one returned.\<close>

definition map_intent_to_design_choices :: "process \<Rightarrow> intent \<Rightarrow> py_error + design_choices" where
  "map_intent_to_design_choices g design_intent =
     bindE (getitem (TAXONOMY g) ''HeadShape'') (\<lambda>hs.
     bindE (getitem (TAXONOMY g) ''BodyProportion'') (\<lambda>bp.
     bindE (getitem (TAXONOMY g) ''ColorTriad'') (\<lambda>ct.
     bindE (getitem (TAXONOMY g) ''SizeCategory'') (\<lambda>sc.
     bindE (getitem (TAXONOMY g) ''FacialStyle'') (\<lambda>fs.
     bindE (index0 (instances hs)) (\<lambda>head0.
     bindE (index0 (instances bp)) (\<lambda>body0.
     bindE (index0 (instances fs)) (\<lambda>face0.
     bindE (first_color_triad (aesthetic_olog (OLOG_LOADER g))) (\<lambda>color0.
     bindE (index0 (instances sc)) (\<lambda>size0.
     bindE (get_lower design_intent ''weight_feeling'') (\<lambda>weight_feeling.
     bindE (get_lower design_intent ''primary_shape'') (\<lambda>primary_shape.
     bindE (get_lower design_intent ''size_implication'') (\<lambda>size_implication.
     bindE (get_lower design_intent ''color_feeling'') (\<lambda>color_feeling.
     bindE (get_lower design_intent ''inferred_emotional_tone'') (\<lambda>inferred_tone.
       Inr \<lparr>head_shape = select_head_shape head0 weight_feeling primary_shape,
            body_proportion = select_body_proportion weight_feeling size_implication,
            facial_style =
              get_default (map_of facial_mapping inferred_tone) ''dot_eyes_curved_smile'',
            color_triad =
              get_default (map_of color_mapping color_feeling) ''soft_pink_lavender_mint'',
            size_category = select_size_category size_implication\<rparr>)))))))))))))))"

text \<open>\<^verbatim>\<open>_get_design_rationale\<close>\<close>

definition get_design_rationale :: "design_choices \<Rightarrow> intent \<Rightarrow> py_error + string" where
  "get_design_rationale choices design_intent =
     bindE (get_lower design_intent ''weight_feeling'') (\<lambda>w1.
     bindE (get_lower design_intent ''weight_feeling'') (\<lambda>w2.
     bindE (get_lower design_intent ''color_feeling'') (\<lambda>c.
     bindE (get_lower design_intent ''size_implication'') (\<lambda>z.
       (let rationale_parts =
              (if str_contains ''droop'' w1
               then [''The '' @ head_shape choices @ '' head shape conveys drooping and introspection'']
               else [])
            @ (if str_contains ''weighted'' w2
               then [''The '' @ body_proportion choices @ '' proportion grounds the character's weight'']
               else [])
            @ (if str_contains ''muted'' c
               then [''The '' @ color_triad choices @ '' palette reflects muted emotional tone'']
               else [])
            @ (if str_contains ''small'' z
               then [''The '' @ size_category choices @ '' reflects vulnerability and intimacy'']
               else [])
        in Inr (str_join ''; ''
                 (if rationale_parts = []
                  then [''Design choices selected to match emotional intent'']
                  else rationale_parts)))))))"

subsection \<open>The unified tool\<close>

record design_guidelines =
  aesthetic :: string
  head_description :: string
  body_description :: string
  facial_description :: string
  size_note :: string
  color_note :: string
  universal_principles :: "string list"

record olog_source =
  source_aesthetic_olog :: string
  source_intentionality_olog :: string
  morphisms_applied :: "string list"
  commutative_diagrams_checked :: "string list"

text \<open>The returned dict: the five taxonomy choices and the other keys. A key whose
  name is used elsewhere (\<^verbatim>\<open>emotional_tone\<close>, \<^verbatim>\<open>user_prompt\<close>, \<^verbatim>\<open>archetype\<close>,
  \<^verbatim>\<open>core_intention\<close>, \<^verbatim>\<open>composition_principle\<close>, \<^verbatim>\<open>why_this_works\<close>, \<^verbatim>\<open>olog_source\<close>)
  carries the prefix \<open>spec\<close>; \<^verbatim>\<open>design_guidelines\<close> is the field \<open>guidelines\<close>.\<close>

record design_specification = design_choices +
  character_name :: string
  spec_emotional_tone :: string
  design_seed :: int
  spec_user_prompt :: string
  spec_archetype :: string
  spec_core_intention :: string
  spec_composition_principle :: string
  design_rationale :: string
  spec_why_this_works :: string
  guidelines :: design_guidelines
  spec_olog_source :: olog_source

text \<open>The empty dict \<^verbatim>\<open>{}\<close> as an archetype.\<close>

definition empty_archetype :: archetype where
  "empty_archetype =
     \<lparr>core_intention = None, composition_principle = None, why_this_works = None,
      sensory_principles = None, proportion_rules = None, design_intent_keywords = None,
      forbidden_combinations = None, examples = None\<rparr>"

text \<open>Lines 213 to 218: the loop over \<^verbatim>\<open>ARCHETYPES.items()\<close> with its \<^verbatim>\<open>break\<close>.\<close>

fun classify_loop :: "catalogue \<Rightarrow> string \<Rightarrow> (string \<times> archetype) option" where
  "classify_loop [] prompt_lower = None"
| "classify_loop ((archetype_name, archetype) # rest) prompt_lower =
     (let keywords = get_default (design_intent_keywords archetype) []
      in if list_ex (\<lambda>kw. str_contains kw prompt_lower) keywords
         then Some (archetype_name, archetype)
         else classify_loop rest prompt_lower)"

text \<open>Lines 210 to 222: \<^verbatim>\<open>not inferred_tone\<close> holds for \<^verbatim>\<open>None\<close> and for the empty
  string.\<close>

definition infer_archetype :: "catalogue \<Rightarrow> string \<Rightarrow> string \<times> archetype" where
  "infer_archetype archetypes prompt_lower =
     (let default =
            (''joyful_character_archetype'',
             get_default (map_of archetypes ''joyful_character_archetype'') empty_archetype)
      in case classify_loop archetypes prompt_lower of
           None \<Rightarrow> default
         | Some (inferred_tone, inferred_archetype) \<Rightarrow>
             if inferred_tone = [] then default else (inferred_tone, inferred_archetype))"

text \<open>Line 225: \<^verbatim>\<open>hash(user_prompt) % 100\<close>; the remainder has the sign of the divisor.\<close>

definition derive_seed :: "process \<Rightarrow> string \<Rightarrow> int" where
  "derive_seed g user_prompt = str_hash g user_prompt mod 100"

text \<open>\<^verbatim>\<open>if design_intent:\<close> holds for a dict with at least one key.\<close>

definition truthy :: "intent option \<Rightarrow> bool" where
  "truthy design_intent = (case design_intent of None \<Rightarrow> False | Some d \<Rightarrow> d \<noteq> [])"

text \<open>Line 230: the assignment into the caller's dict.\<close>

definition store_tone :: "string \<Rightarrow> intent option \<Rightarrow> intent option" where
  "store_tone inferred_tone design_intent =
     (if truthy design_intent
      then map_option (AList.update ''inferred_emotional_tone'' (PStr inferred_tone)) design_intent
      else design_intent)"

definition fallback_choices :: design_choices where
  "fallback_choices =
     \<lparr>head_shape = ''large_round_orb'',
      body_proportion = ''balanced_cute_50_50'',
      facial_style = ''dot_eyes_curved_smile'',
      color_triad = ''soft_pink_lavender_mint'',
      size_category = ''small_plush_toy''\<rparr>"

text \<open>Lines 229 to 243; \<open>stored\<close> is the caller's dict after line 230.\<close>

definition resolve_choices ::
  "process \<Rightarrow> string \<Rightarrow> intent option \<Rightarrow> py_error + design_choices \<times> string" where
  "resolve_choices g inferred_tone stored =
     (case stored of
        Some d \<Rightarrow>
          if d \<noteq> []
          then bindE (map_intent_to_design_choices g d) (\<lambda>choices.
               bindE (get_design_rationale choices d) (\<lambda>rationale.
                 Inr (choices, rationale)))
          else Inr (fallback_choices, ''Archetype-based selection: '' @ inferred_tone)
      | None \<Rightarrow> Inr (fallback_choices, ''Archetype-based selection: '' @ inferred_tone))"

definition name_prefixes :: "(string \<times> string) list" where
  "name_prefixes =
     [(''joyful_character_archetype'', ''Joy''),
      (''melancholic_character_archetype'', ''Melan''),
      (''anxious_character_archetype'', ''Anx''),
      (''sleepy_character_archetype'', ''Sleep''),
      (''mischievous_character_archetype'', ''Misc''),
      (''dreamy_character_archetype'', ''Dream''),
      (''determined_character_archetype'', ''Det'')]"

text \<open>Lines 246 to 257; \<^verbatim>\<open>prompt_lower.split()[0]\<close> raises on a prompt with no token.\<close>

definition make_name :: "string \<Rightarrow> string \<Rightarrow> py_error + string" where
  "make_name prompt_lower inferred_tone =
     bindE (index0 (str_split prompt_lower)) (\<lambda>w.
       (let first_word = take 3 w;
            prefix = get_default (map_of name_prefixes inferred_tone) ''Sanrio''
        in Inr (prefix @ str_capitalize first_word)))"

definition make_guidelines :: "design_choices \<Rightarrow> design_guidelines" where
  "make_guidelines c =
     \<lparr>aesthetic = ''Sanrio style: cute, simplified shapes, minimal features, pastel-friendly'',
      head_description =
        ''Use a '' @ str_replace (CHR ''_'') (CHR '' '') (head_shape c) @ '' shape for the head'',
      body_description =
        ''Body should be '' @ str_replace (CHR ''_'') (CHR '' '') (body_proportion c),
      facial_description =
        ''Face features: '' @ str_replace (CHR ''_'') (CHR '' '') (facial_style c),
      size_note = ''Character size: '' @ str_replace (CHR ''_'') (CHR '' '') (size_category c),
      color_note =
        ''Use '' @ str_replace (CHR ''_'') (CHR '' '') (color_triad c) @ '' color palette'',
      universal_principles =
        [''Proportion precision: maintain ratio relationships'',
         ''Feature economy: each feature must earn its existence'',
         ''Pastel restraint: stay within soft color spectrum'',
         ''Approachability priority: no sharp edges or judgment'',
         ''Emotional honesty: character must be authentic to its emotion'']\<rparr>"

definition the_olog_source :: olog_source where
  "the_olog_source =
     \<lparr>source_aesthetic_olog = ''sanrio.olog.yaml'',
      source_intentionality_olog = ''sanrio_intentionality.olog.yaml'',
      morphisms_applied =
        [''design_intent_to_head_shape'', ''design_intent_to_body_proportion'',
         ''design_intent_to_color_triad'', ''design_intent_to_facial_style''],
      commutative_diagrams_checked =
        [''proportional_coherence'', ''emotional_coherence'', ''expressiveness_balance'']\<rparr>"

text \<open>
  \<^verbatim>\<open>_generate_sanrio_character_impl\<close>. The result is the returned dict or the exception
  raised, together with the process after the call and the caller's \<^verbatim>\<open>design_intent\<close>
  object after the call. Lines 226 and 230 run before anything that can raise, so both
  effects are there whatever the outcome.
\<close>

definition generate_sanrio_character_impl ::
  "process \<Rightarrow> string \<Rightarrow> intent option \<Rightarrow>
   (py_error + design_specification) \<times> process \<times> intent option" where
  "generate_sanrio_character_impl g user_prompt design_intent =
     (let prompt_lower = str_lower user_prompt;
          (inferred_tone, inferred_archetype) = infer_archetype (ARCHETYPES g) prompt_lower;
          seed = derive_seed g user_prompt;
          g' = g\<lparr>random_state := Seeded seed\<rparr>;
          stored = store_tone inferred_tone design_intent;
          outcome =
            bindE (resolve_choices g' inferred_tone stored) (\<lambda>(choices, rationale).
            bindE (make_name prompt_lower inferred_tone) (\<lambda>name.
              Inr \<lparr>head_shape = head_shape choices,
                   body_proportion = body_proportion choices,
                   facial_style = facial_style choices,
                   color_triad = color_triad choices,
                   size_category = size_category choices,
                   character_name = name,
                   spec_emotional_tone = inferred_tone,
                   design_seed = seed,
                   spec_user_prompt = user_prompt,
                   spec_archetype = inferred_tone,
                   spec_core_intention = get_default (core_intention inferred_archetype) [],
                   spec_composition_principle =
                     get_default (composition_principle inferred_archetype) [],
                   design_rationale = rationale,
                   spec_why_this_works = get_default (why_this_works inferred_archetype) [],
                   guidelines = make_guidelines choices,
                   spec_olog_source = the_olog_source\<rparr>))
      in (outcome, g', stored))"

text \<open>The tool \<^verbatim>\<open>generate_sanrio_character\<close> calls the implementation as it is.\<close>

definition generate_sanrio_character ::
  "process \<Rightarrow> string \<Rightarrow> intent option \<Rightarrow>
   (py_error + design_specification) \<times> process \<times> intent option" where
  "generate_sanrio_character g user_prompt design_intent =
     generate_sanrio_character_impl g user_prompt design_intent"

subsection \<open>Archetype rules\<close>

record archetype_rules =
  rules_archetype :: string
  rules_core_intention :: string
  rules_composition_principle :: string
  rules_why_this_works :: string
  rules_sensory_principles :: "string list"
  rules_proportion_rules :: "(string \<times> pyval) list"
  design_keywords :: "string list"
  rules_forbidden_combinations :: "pyval list"
  rules_examples :: "pyval list"

text \<open>The two dicts the tool returns: \<^verbatim>\<open>{"error": ...}\<close> or the rules.\<close>

datatype rules_result = Error_dict string | Rules_dict archetype_rules

text \<open>\<^verbatim>\<open>get_archetype_rules\<close> of the server; \<^verbatim>\<open>not archetype\<close> holds for \<^verbatim>\<open>None\<close> and
  for the empty dict.\<close>

definition get_archetype_rules ::
  "process \<Rightarrow> string \<Rightarrow> (py_error + rules_result) \<times> process" where
  "get_archetype_rules g emotional_tone =
     (case loader_get_archetype_rules (OLOG_LOADER g) emotional_tone of
        (Inl e, l') \<Rightarrow> (Inl e, g\<lparr>OLOG_LOADER := l'\<rparr>)
      | (Inr found, l') \<Rightarrow>
          (Inr (case found of
                  None \<Rightarrow> Error_dict (''Unknown archetype: '' @ emotional_tone)
                | Some a \<Rightarrow>
                    if a = empty_archetype
                    then Error_dict (''Unknown archetype: '' @ emotional_tone)
                    else Rules_dict
                      \<lparr>rules_archetype = emotional_tone,
                       rules_core_intention = get_default (core_intention a) [],
                       rules_composition_principle = get_default (composition_principle a) [],
                       rules_why_this_works = get_default (why_this_works a) [],
                       rules_sensory_principles = get_default (sensory_principles a) [],
                       rules_proportion_rules = get_default (proportion_rules a) [],
                       design_keywords = get_default (design_intent_keywords a) [],
                       rules_forbidden_combinations = get_default (forbidden_combinations a) [],
                       rules_examples = get_default (examples a) []\<rparr>),
           g\<lparr>OLOG_LOADER := l'\<rparr>))"

section \<open>Example documents\<close>

text \<open>
  Small documents on which the theorems below are instantiated: a taxonomy that declares
  the five dimensions the server reads, with the instance ids the server's rules name,
  and a catalogue of three archetypes.
\<close>

definition dim :: "string list \<Rightarrow> type_def" where
  "dim xs = \<lparr>td_description = None, td_instances = Some xs, td_properties = None\<rparr>"

definition example_types :: "(string \<times> type_def) list" where
  "example_types =
     [(''HeadShape'', dim [''large_round_orb'', ''elongated_teardrop'', ''cat_like_curved'',
         ''minimalist_blob'', ''simplified_geometric'', ''wide_and_flat'',
         ''ovoid_with_point'']),
      (''BodyProportion'', dim [''head_dominant_80_20'', ''balanced_cute_50_50'',
         ''body_focused_30_70'', ''tiny_torso_large_head'', ''extended_and_fluid'',
         ''limbless_blob'']),
      (''FacialStyle'', dim [''dot_eyes_curved_smile'', ''closed_happy_eyes'',
         ''worried_upturned_eyes'', ''closed_curved_eyes'', ''sparkle_mischievous_grin'',
         ''wide_dreamy_eyes'', ''focused_straight_gaze'']),
      (''ColorTriad'', dim [''soft_pink_lavender_mint'', ''dusty_rose_sage_cream'',
         ''butter_yellow_peach_blue'', ''lavender_mint_sky_blue'',
         ''pale_lavender_pearl_white'', ''coral_mint_cream'']),
      (''SizeCategory'', dim [''small_plush_toy'', ''small_decorative'', ''medium_standard'',
         ''large_display''])]"

definition arch :: "string list \<Rightarrow> archetype" where
  "arch kws = empty_archetype\<lparr>design_intent_keywords := Some kws\<rparr>"

definition example_catalogue :: catalogue where
  "example_catalogue =
     [(''joyful_character_archetype'', arch [''happy'', ''joy'']),
      (''melancholic_character_archetype'', arch [''sad'', ''procrastination'']),
      (''sleepy_character_archetype'', arch [''sleepy'', ''tired''])]"

text \<open>The two documents that declare the types \<open>ts\<close> and the archetypes \<open>cat\<close>, and
  the process that importing the server over them gives, with the hash function \<open>h\<close>.\<close>

definition aesthetic_of :: "(string \<times> type_def) list \<Rightarrow> aesthetic_doc" where
  "aesthetic_of ts = \<lparr>olog = Some \<lparr>types = Some ts\<rparr>\<rparr>"

definition intentionality_of :: "catalogue \<Rightarrow> intentionality_doc" where
  "intentionality_of cat = \<lparr>olog = Some \<lparr>archetype_instances = Some cat\<rparr>\<rparr>"

definition loaded_process ::
  "(string \<Rightarrow> int) \<Rightarrow> (string \<times> type_def) list \<Rightarrow> catalogue \<Rightarrow> process" where
  "loaded_process h ts cat =
     \<lparr>str_hash = h,
      OLOG_LOADER =
        \<lparr>aesthetic_olog = aesthetic_of ts, intentionality_olog = intentionality_of cat,
         taxonomy_cache = Some (flatten_types ts []),
         intent_mapping_cache = Some cat\<rparr>,
      TAXONOMY = flatten_types ts [],
      ARCHETYPES = cat,
      random_state = Os_entropy\<rparr>"

text \<open>Two hash functions, as two interpreter processes have them: the values of
  \<^verbatim>\<open>hash("procrastination")\<close> that CPython 3.11 computes under \<^verbatim>\<open>PYTHONHASHSEED=1\<close> and
  under \<^verbatim>\<open>PYTHONHASHSEED=2\<close>.\<close>

definition hash_A :: "string \<Rightarrow> int" where
  "hash_A s = (if s = ''procrastination'' then 7999916457656244221 else 0)"

definition hash_B :: "string \<Rightarrow> int" where
  "hash_B s = (if s = ''procrastination'' then - 4889388330913167273 else 0)"

definition process_A :: process where
  "process_A = loaded_process hash_A example_types example_catalogue"

definition process_B :: process where
  "process_B = loaded_process hash_B example_types example_catalogue"



text \<open>The example taxonomy with the instance list of \<^verbatim>\<open>HeadShape\<close> emptied.\<close>

definition empty_head_types :: "(string \<times> type_def) list" where
  "empty_head_types = AList.update ''HeadShape'' (dim []) example_types"

text \<open>The types of a taxonomy document with a dimension of zero instances and a
  dimension that declares one id twice.\<close>

definition degenerate_types :: "(string \<times> type_def) list" where
  "degenerate_types =
     [(''HeadShape'', dim []),
      (''ColorTriad'', dim [''coral_mint_cream'', ''coral_mint_cream''])]"

section \<open>Notions used in the statements\<close>

text \<open>Closure: a value is declared for a dimension when it is in the instance list of
  that dimension in the loaded taxonomy.\<close>

definition declared :: "process \<Rightarrow> string \<Rightarrow> string \<Rightarrow> bool" where
  "declared g dimension_name v =
     (case map_of (TAXONOMY g) dimension_name of
        None \<Rightarrow> False
      | Some d \<Rightarrow> v \<in> set (instances d))"

definition closure :: "process \<Rightarrow> 'a design_choices_scheme \<Rightarrow> bool" where
  "closure g c \<longleftrightarrow>
     declared g ''HeadShape'' (head_shape c) \<and>
     declared g ''BodyProportion'' (body_proportion c) \<and>
     declared g ''FacialStyle'' (facial_style c) \<and>
     declared g ''ColorTriad'' (color_triad c) \<and>
     declared g ''SizeCategory'' (size_category c)"

text \<open>The instance ids that the rules of the server name, for each dimension.\<close>

definition rule_ids :: "(string \<times> string list) list" where
  "rule_ids =
     [(''HeadShape'',
         [''elongated_teardrop'', ''cat_like_curved'', ''minimalist_blob'',
          ''simplified_geometric'', ''wide_and_flat'', ''ovoid_with_point'', ''large_round_orb'']),
      (''BodyProportion'',
         [''tiny_torso_large_head'', ''body_focused_30_70'', ''extended_and_fluid'',
          ''limbless_blob'', ''head_dominant_80_20'', ''balanced_cute_50_50'']),
      (''FacialStyle'', ''dot_eyes_curved_smile'' # map snd facial_mapping),
      (''ColorTriad'', ''soft_pink_lavender_mint'' # map snd color_mapping),
      (''SizeCategory'',
         [''small_plush_toy'', ''small_decorative'', ''medium_standard'', ''large_display''])]"

definition rule_ids_declared :: "process \<Rightarrow> bool" where
  "rule_ids_declared g =
     list_all (\<lambda>(dimension_name, ids). list_all (declared g dimension_name) ids) rule_ids"

text \<open>The classifier in the words of its description: an archetype matches a text when
  one of its keywords occurs in the text as a substring.\<close>

definition keyword_match :: "archetype \<Rightarrow> string \<Rightarrow> bool" where
  "keyword_match a text \<longleftrightarrow>
     (\<exists>kw \<in> set (get_default (design_intent_keywords a) []). sublist kw text)"

text \<open>A process as the import leaves it: both caches of the loader are filled with the
  tables held in the globals.\<close>

definition serving :: "process \<Rightarrow> bool" where
  "serving g \<longleftrightarrow>
     taxonomy_cache (OLOG_LOADER g) = Some (TAXONOMY g) \<and>
     intent_mapping_cache (OLOG_LOADER g) = Some (ARCHETYPES g)"

text \<open>A repository over which the mapper finds what it reads: the five dimensions with
  at least one instance each. An intent whose text fields, where present, are strings.\<close>

definition text_or_absent :: "intent \<Rightarrow> string \<Rightarrow> bool" where
  "text_or_absent d key =
     (case map_of d key of None \<Rightarrow> True | Some (PStr s) \<Rightarrow> True | Some _ \<Rightarrow> False)"

definition text_fields :: "intent option \<Rightarrow> bool" where
  "text_fields design_intent =
     (case design_intent of
        None \<Rightarrow> True
      | Some d \<Rightarrow>
          list_all (text_or_absent d)
            [''weight_feeling'', ''primary_shape'', ''size_implication'', ''color_feeling''])"

definition has_instances :: "process \<Rightarrow> string \<Rightarrow> bool" where
  "has_instances g dimension_name =
     (case map_of (TAXONOMY g) dimension_name of None \<Rightarrow> False | Some d \<Rightarrow> instances d \<noteq> [])"

definition valid_repository :: "process \<Rightarrow> bool" where
  "valid_repository g \<longleftrightarrow>
     list_all (has_instances g)
       [''HeadShape'', ''BodyProportion'', ''ColorTriad'', ''SizeCategory'', ''FacialStyle''] \<and>
     \<not> isl (first_color_triad (aesthetic_olog (OLOG_LOADER g)))"

section \<open>Properties\<close>

lemma bindE_simps:
  "bindE (Inl e) f = Inl e"
  "bindE (Inr x) f = f x"
  by (simp_all add: bindE_def)

lemma str_contains_sublist: "str_contains kw s \<longleftrightarrow> sublist kw s"
  by (induction s) (simp_all add: sublist_Cons_right)


lemma bindE_Inr_iff: "bindE m f = Inr y \<longleftrightarrow> (\<exists>x. m = Inr x \<and> f x = Inr y)"
  by (cases m) (simp_all add: bindE_def)

text \<open>The process \<open>loaded_process h ts cat\<close> is the one the import gives.\<close>

lemma module_init_loaded_process:
  "module_init h (Parsed (aesthetic_of ts)) (Parsed (intentionality_of cat)) =
     Inr (loaded_process h ts cat)"
  by (simp add: module_init_def OlogLoader_init_def read_yaml_def bindE_simps get_taxonomy_def
      get_intentionality_instances_def Let_def get_default_def aesthetic_of_def
      intentionality_of_def loaded_process_def)

subsection \<open>What a call of the tool computes\<close>

lemma store_tone_None: "store_tone t None = None"
  by (simp add: store_tone_def truthy_def)

lemma resolve_choices_None:
  "resolve_choices g t None = Inr (fallback_choices, ''Archetype-based selection: '' @ t)"
  by (simp add: resolve_choices_def)

lemma generate_process:
  "fst (snd (generate_sanrio_character_impl g p di)) =
     g\<lparr>random_state := Seeded (derive_seed g p)\<rparr>"
  by (simp add: generate_sanrio_character_impl_def Let_def split: prod.splits)

lemma generate_no_intent_rng:
  "fst (generate_sanrio_character_impl (g\<lparr>random_state := r\<rparr>) p None) =
     fst (generate_sanrio_character_impl g p None)"
  by (simp add: generate_sanrio_character_impl_def Let_def store_tone_None resolve_choices_None
      derive_seed_def split: prod.splits)

lemma generate_Inr_D:
  assumes "fst (generate_sanrio_character_impl g p di) = Inr spec"
  shows "\<exists>c r. resolve_choices (g\<lparr>random_state := Seeded (derive_seed g p)\<rparr>)
            (fst (infer_archetype (ARCHETYPES g) (str_lower p)))
            (store_tone (fst (infer_archetype (ARCHETYPES g) (str_lower p))) di) = Inr (c, r)
         \<and> head_shape spec = head_shape c \<and> body_proportion spec = body_proportion c
         \<and> facial_style spec = facial_style c \<and> color_triad spec = color_triad c
         \<and> size_category spec = size_category c
         \<and> spec_emotional_tone spec = fst (infer_archetype (ARCHETYPES g) (str_lower p))
         \<and> design_seed spec = derive_seed g p
         \<and> str_split (str_lower p) \<noteq> []"
  using assms
  by (auto simp: generate_sanrio_character_impl_def Let_def bindE_Inr_iff make_name_def index0_def
      split: prod.splits list.splits)

lemma derive_seed_range: "0 \<le> derive_seed g p \<and> derive_seed g p < 100"
  by (simp add: derive_seed_def)

text \<open>
  C1. Two calls of the tool with the same prompt and no design intent, in one process
  over the same loaded tables, have the same outcome, hence the same character name,
  the same five taxonomy choices and the same seed: the second call, run in the process
  as the first call leaves it, returns what the first returned, and the outcome does not
  depend on the state of the random generator, the only global a call writes.
\<close>

theorem generate_deterministic:
  "fst (generate_sanrio_character_impl
          (fst (snd (generate_sanrio_character_impl g p None))) p None) =
     fst (generate_sanrio_character_impl g p None)
   \<and> fst (generate_sanrio_character_impl (g\<lparr>random_state := r\<rparr>) p None) =
     fst (generate_sanrio_character_impl g p None)"
  unfolding generate_process by (simp add: generate_no_intent_rng)

subsection \<open>Closure of the choices in the taxonomy\<close>







lemma declared_frame [simp]: "declared (g\<lparr>random_state := r\<rparr>) = declared g"
  by (simp add: declared_def fun_eq_iff)

lemma closure_frame [simp]: "closure (g\<lparr>random_state := r\<rparr>) c = closure g c"
  by (simp add: closure_def)

lemma rule_ids_declared_frame [simp]:
  "rule_ids_declared (g\<lparr>random_state := r\<rparr>) = rule_ids_declared g"
  by (simp add: rule_ids_declared_def)







subsection \<open>The seed\<close>

text \<open>
  C3. The seed is \<^verbatim>\<open>hash(user_prompt) % 100\<close>, and the built-in hash of a string is
  that of the running process. For the prompt "procrastination", the process whose hash
  function is the one of \<^verbatim>\<open>PYTHONHASHSEED=1\<close> returns the seed 21 and the process whose
  hash function is the one of \<^verbatim>\<open>PYTHONHASHSEED=2\<close> returns the seed 27, over the same
  tables: the seed is not a function of the text alone.
\<close>

theorem seed_differs_between_processes:
  "map_sum id design_seed
     (fst (generate_sanrio_character_impl process_A ''procrastination'' None)) = Inr 21 \<and>
   map_sum id design_seed
     (fst (generate_sanrio_character_impl process_B ''procrastination'' None)) = Inr 27"
  by code_simp

subsection \<open>Failures of a call\<close>

text \<open>
  C4. The tool raises on inputs it can receive. For the empty prompt and no intent, in
  every process, and for a prompt of two blanks over the example tables,
  \<^verbatim>\<open>prompt_lower.split()[0]\<close> raises \<^verbatim>\<open>IndexError\<close>; for the prompt "x" and the intent
  whose \<^verbatim>\<open>weight_feeling\<close> is \<^verbatim>\<open>null\<close>, over the example tables, the call of \<^verbatim>\<open>lower\<close>
  raises \<^verbatim>\<open>AttributeError\<close>.
\<close>

theorem generate_raises:
  "fst (generate_sanrio_character_impl g [] None) = Inl IndexError \<and>
   fst (generate_sanrio_character_impl process_A ''  '' None) = Inl IndexError \<and>
   fst (generate_sanrio_character_impl process_A ''x''
          (Some [(''weight_feeling'', PNone)])) = Inl AttributeError"
proof (intro conjI)
  show "fst (generate_sanrio_character_impl g [] None) = Inl IndexError"
    by (simp add: generate_sanrio_character_impl_def Let_def store_tone_None
        resolve_choices_None make_name_def str_lower_def str_split_def index0_def bindE_simps
        split: prod.splits)
  show "fst (generate_sanrio_character_impl process_A ''  '' None) = Inl IndexError"
    by code_simp
  show "fst (generate_sanrio_character_impl process_A ''x''
          (Some [(''weight_feeling'', PNone)])) = Inl AttributeError"
    by code_simp
qed

text \<open>These are the only failures over a valid repository: a call returns a design when
  the prompt has a token and the text fields of the intent, where present, are strings.
  The example repository is valid.\<close>

lemma has_instancesD:
  "has_instances g n \<Longrightarrow> \<exists>d x. getitem (TAXONOMY g) n = Inr d \<and> index0 (instances d) = Inr x"
  by (auto simp: has_instances_def getitem_def index0_def split: option.splits list.splits)

lemma get_lower_text: "text_or_absent d k \<Longrightarrow> \<exists>s. get_lower d k = Inr s"
  by (auto simp: text_or_absent_def get_lower_def split: option.splits pyval.splits)

lemma text_or_absent_update:
  "text_or_absent d k \<Longrightarrow> text_or_absent (AList.update k' (PStr t) d) k"
  by (auto simp: text_or_absent_def update_conv' split: option.splits pyval.splits)

lemma text_or_absent_update_same: "text_or_absent (AList.update k (PStr t) d) k"
  by (auto simp: text_or_absent_def update_conv')

lemma map_intent_total:
  assumes "valid_repository g"
    and "list_all (text_or_absent d)
            [''weight_feeling'', ''primary_shape'', ''size_implication'', ''color_feeling'',
             ''inferred_emotional_tone'']"
  shows "\<exists>c. map_intent_to_design_choices g d = Inr c"
proof -
  from assms(1) obtain hs bp ct sc fs h0 b0 f0 s0 c0 where
    "getitem (TAXONOMY g) ''HeadShape'' = Inr hs" "index0 (instances hs) = Inr h0"
    "getitem (TAXONOMY g) ''BodyProportion'' = Inr bp" "index0 (instances bp) = Inr b0"
    "getitem (TAXONOMY g) ''ColorTriad'' = Inr ct"
    "getitem (TAXONOMY g) ''SizeCategory'' = Inr sc" "index0 (instances sc) = Inr s0"
    "getitem (TAXONOMY g) ''FacialStyle'' = Inr fs" "index0 (instances fs) = Inr f0"
    "first_color_triad (aesthetic_olog (OLOG_LOADER g)) = Inr c0"
    unfolding valid_repository_def
    by (cases "first_color_triad (aesthetic_olog (OLOG_LOADER g))")
       (auto dest!: has_instancesD)
  moreover from assms(2) obtain w p z cf t where
    "get_lower d ''weight_feeling'' = Inr w" "get_lower d ''primary_shape'' = Inr p"
    "get_lower d ''size_implication'' = Inr z" "get_lower d ''color_feeling'' = Inr cf"
    "get_lower d ''inferred_emotional_tone'' = Inr t"
    by (auto dest!: get_lower_text)
  ultimately show ?thesis
    by (simp add: map_intent_to_design_choices_def bindE_simps)
qed

lemma get_design_rationale_total:
  assumes "list_all (text_or_absent d) [''weight_feeling'', ''color_feeling'', ''size_implication'']"
  shows "\<exists>r. get_design_rationale c d = Inr r"
proof -
  from assms obtain w cf z where
    "get_lower d ''weight_feeling'' = Inr w" "get_lower d ''color_feeling'' = Inr cf"
    "get_lower d ''size_implication'' = Inr z"
    by (auto dest!: get_lower_text)
  then show ?thesis by (simp add: get_design_rationale_def bindE_simps Let_def)
qed

lemma generate_total:
  assumes "valid_repository g" and "str_split (str_lower p) \<noteq> []" and "text_fields di"
  shows "\<exists>spec. fst (generate_sanrio_character_impl g p di) = Inr spec"
proof -
  let ?g = "g\<lparr>random_state := Seeded (derive_seed g p)\<rparr>"
  let ?t = "fst (infer_archetype (ARCHETYPES g) (str_lower p))"
  have v: "valid_repository ?g"
    using assms(1) by (simp add: valid_repository_def has_instances_def)
  have "\<exists>cr. resolve_choices ?g ?t (store_tone ?t di) = Inr cr"
  proof (cases "truthy di")
    case False
    then show ?thesis
      by (auto simp: resolve_choices_def store_tone_def truthy_def split: option.splits)
  next
    case True
    then obtain d where d: "di = Some d" "d \<noteq> []" by (auto simp: truthy_def split: option.splits)
    let ?d = "AList.update ''inferred_emotional_tone'' (PStr ?t) d"
    from assms(3) d have f: "list_all (text_or_absent ?d)
            [''weight_feeling'', ''primary_shape'', ''size_implication'', ''color_feeling'',
             ''inferred_emotional_tone'']"
      by (simp add: text_fields_def text_or_absent_update text_or_absent_update_same)
    from map_intent_total [OF v f] obtain c where c: "map_intent_to_design_choices ?g ?d = Inr c" ..
    from f have "list_all (text_or_absent ?d) [''weight_feeling'', ''color_feeling'', ''size_implication'']"
      by simp
    from get_design_rationale_total [OF this, of c] obtain r where "get_design_rationale c ?d = Inr r" ..
    with c d True show ?thesis
      by (simp add: resolve_choices_def store_tone_def bindE_simps)
  qed
  then obtain c r where "resolve_choices ?g ?t (store_tone ?t di) = Inr (c, r)" by auto
  moreover from assms(2) obtain w ws where "str_split (str_lower p) = w # ws"
    by (cases "str_split (str_lower p)") auto
  ultimately show ?thesis
    by (cases "infer_archetype (ARCHETYPES g) (str_lower p)")
       (simp add: generate_sanrio_character_impl_def Let_def make_name_def index0_def bindE_simps)
qed

lemma process_A_valid: "valid_repository process_A"
  by code_simp

subsection \<open>The classifier\<close>

lemma keyword_match_list_ex:
  "list_ex (\<lambda>kw. str_contains kw t) (get_default (design_intent_keywords a) []) = keyword_match a t"
  by (simp add: keyword_match_def list_ex_iff str_contains_sublist)

lemma classify_loop_no_match:
  "\<forall>(m, b) \<in> set cat. \<not> keyword_match b t \<Longrightarrow> classify_loop cat t = None"
  by (induction cat) (auto simp: keyword_match_list_ex)

lemma classify_loop_first_match:
  "\<forall>(m, b) \<in> set pre. \<not> keyword_match b t \<Longrightarrow> keyword_match a t \<Longrightarrow>
   classify_loop (pre @ (n, a) # post) t = Some (n, a)"
  by (induction pre) (auto simp: keyword_match_list_ex)

text \<open>
  C5. The classifier works on the lower-cased prompt and goes through the catalogue in
  its order: the archetype returned is the first one that has a keyword occurring in the
  lower-cased prompt as a substring, whatever matches after it (so of two matching
  archetypes the earlier one is returned), and it is \<^verbatim>\<open>joyful_character_archetype\<close>
  when no archetype matches. The name returned for a match is the archetype's name, a
  non-empty string. The tool reports this archetype as the emotional tone of the design.
\<close>

theorem classifier_first_match:
  "(ARCHETYPES g = pre @ (n, a) # post \<and> (\<forall>(m, b) \<in> set pre. \<not> keyword_match b (str_lower p)) \<and>
      keyword_match a (str_lower p) \<and> n \<noteq> [] \<longrightarrow>
      fst (infer_archetype (ARCHETYPES g) (str_lower p)) = n) \<and>
   ((\<forall>(m, b) \<in> set (ARCHETYPES g). \<not> keyword_match b (str_lower p)) \<longrightarrow>
      fst (infer_archetype (ARCHETYPES g) (str_lower p)) = ''joyful_character_archetype'') \<and>
   (fst (generate_sanrio_character_impl g p di) = Inr spec \<longrightarrow>
      spec_emotional_tone spec = fst (infer_archetype (ARCHETYPES g) (str_lower p)))"
proof (intro conjI impI)
  assume "ARCHETYPES g = pre @ (n, a) # post \<and> (\<forall>(m, b) \<in> set pre. \<not> keyword_match b (str_lower p)) \<and>
      keyword_match a (str_lower p) \<and> n \<noteq> []"
  then show "fst (infer_archetype (ARCHETYPES g) (str_lower p)) = n"
    by (simp add: infer_archetype_def classify_loop_first_match)
next
  assume "\<forall>(m, b) \<in> set (ARCHETYPES g). \<not> keyword_match b (str_lower p)"
  then show "fst (infer_archetype (ARCHETYPES g) (str_lower p)) = ''joyful_character_archetype''"
    by (simp add: infer_archetype_def classify_loop_no_match)
next
  assume "fst (generate_sanrio_character_impl g p di) = Inr spec"
  then show "spec_emotional_tone spec = fst (infer_archetype (ARCHETYPES g) (str_lower p))"
    by (auto dest: generate_Inr_D)
qed

theorem classifier_first_match_witness:
  "keyword_match (arch [''happy'', ''joy'']) (str_lower ''A sad but HAPPY day'') \<and>
   keyword_match (arch [''sad'', ''procrastination'']) (str_lower ''A sad but HAPPY day'') \<and>
   fst (infer_archetype (ARCHETYPES process_A) (str_lower ''A sad but HAPPY day'')) = ''joyful_character_archetype'' \<and>
   \<not> (\<exists>(m, b) \<in> set (ARCHETYPES process_A). keyword_match b (str_lower ''XYZ'')) \<and>
   fst (infer_archetype (ARCHETYPES process_A) (str_lower ''XYZ'')) = ''joyful_character_archetype'' \<and>
   map_sum id spec_emotional_tone (fst (generate_sanrio_character_impl process_A ''A sad but HAPPY day'' None)) = Inr ''joyful_character_archetype''"
proof -
  let ?p = "''A sad but HAPPY day''"
  let ?post = "[(''melancholic_character_archetype'', arch [''sad'', ''procrastination'']),
      (''sleepy_character_archetype'', arch [''sleepy'', ''tired''])]"
  have cat: "ARCHETYPES process_A = [] @ (''joyful_character_archetype'', arch [''happy'', ''joy'']) # ?post"
    by (simp add: process_A_def loaded_process_def example_catalogue_def)
  have m1: "keyword_match (arch [''happy'', ''joy'']) (str_lower ?p)" by code_simp
  have m2: "keyword_match (arch [''sad'', ''procrastination'']) (str_lower ?p)" by code_simp
  have n: "\<not> (\<exists>(m, b) \<in> set (ARCHETYPES process_A). keyword_match b (str_lower ''XYZ''))" by code_simp
  have r: "\<not> isl (fst (generate_sanrio_character_impl process_A ?p None))" by code_simp
  then obtain spec where s: "fst (generate_sanrio_character_impl process_A ?p None) = Inr spec"
    by (cases "fst (generate_sanrio_character_impl process_A ?p None)") auto
  have a: "fst (infer_archetype (ARCHETYPES process_A) (str_lower ?p)) = ''joyful_character_archetype''"
    using classifier_first_match [of process_A "[]" "''joyful_character_archetype''" "arch [''happy'', ''joy'']" ?post ?p] cat m1
    by simp
  have b: "fst (infer_archetype (ARCHETYPES process_A) (str_lower ''XYZ'')) = ''joyful_character_archetype''"
    using classifier_first_match [of process_A _ _ _ _ "''XYZ''"] n by blast
  have c: "spec_emotional_tone spec = ''joyful_character_archetype''"
    using classifier_first_match [of process_A _ _ _ _ ?p None spec] s a by simp
  show ?thesis using m1 m2 a b n c s by simp
qed

subsection \<open>The empty intent\<close>

lemma store_tone_empty: "store_tone t (Some []) = Some []"
  by (simp add: store_tone_def truthy_def)

lemma get_lower_absent: "map_of d k = None \<Longrightarrow> get_lower d k = Inr []"
  by (simp add: get_lower_def str_lower_def)

lemma select_size_category_empty: "select_size_category [] = ''medium_standard''"
  by (simp add: select_size_category_def)

text \<open>
  C6, as the claim states it, fails: an empty intent record is false in
  \<^verbatim>\<open>if design_intent:\<close>, the tool takes the branch of the absent intent, and the size
  category of the design is \<^verbatim>\<open>small_plush_toy\<close>, not the medium/standard instance.
\<close>

theorem empty_intent_counterexample:
  "map_sum id size_category (fst (generate_sanrio_character_impl process_A ''happy'' (Some [])))
     = Inr ''small_plush_toy'' \<and>
   map_sum id size_category (fst (generate_sanrio_character_impl process_A ''happy'' (Some [])))
     \<noteq> Inr ''medium_standard''"
  by code_simp

text \<open>
  C6, amended. For an empty intent record and a prompt with at least one token, the tool
  returns a design in which every dimension has a value: \<^verbatim>\<open>large_round_orb\<close>,
  \<^verbatim>\<open>balanced_cute_50_50\<close>, \<^verbatim>\<open>dot_eyes_curved_smile\<close>, \<^verbatim>\<open>soft_pink_lavender_mint\<close> and, for
  the size category, \<^verbatim>\<open>small_plush_toy\<close>. The medium/standard instance is the fallback
  of the intent mapper: whenever the mapper returns for an intent with no
  \<^verbatim>\<open>size_implication\<close>, the size category is \<^verbatim>\<open>medium_standard\<close>.
\<close>

theorem empty_intent_choices:
  "(str_split (str_lower p) \<noteq> [] \<longrightarrow>
     (\<exists>spec. fst (generate_sanrio_character_impl g p (Some [])) = Inr spec \<and>
        head_shape spec = ''large_round_orb'' \<and>
        body_proportion spec = ''balanced_cute_50_50'' \<and>
        facial_style spec = ''dot_eyes_curved_smile'' \<and>
        color_triad spec = ''soft_pink_lavender_mint'' \<and>
        size_category spec = ''small_plush_toy'')) \<and>
   (map_of d ''size_implication'' = None \<and> map_intent_to_design_choices g d = Inr c \<longrightarrow>
      size_category c = ''medium_standard'')"
proof (intro conjI impI)
  assume "str_split (str_lower p) \<noteq> []"
  then obtain w ws where "str_split (str_lower p) = w # ws" by (cases "str_split (str_lower p)") auto
  then show "\<exists>spec. fst (generate_sanrio_character_impl g p (Some [])) = Inr spec \<and>
        head_shape spec = ''large_round_orb'' \<and>
        body_proportion spec = ''balanced_cute_50_50'' \<and>
        facial_style spec = ''dot_eyes_curved_smile'' \<and>
        color_triad spec = ''soft_pink_lavender_mint'' \<and>
        size_category spec = ''small_plush_toy''"
    by (simp add: generate_sanrio_character_impl_def Let_def store_tone_empty resolve_choices_def
        make_name_def index0_def bindE_simps fallback_choices_def split: prod.splits)
next
  assume "map_of d ''size_implication'' = None \<and> map_intent_to_design_choices g d = Inr c"
  then show "size_category c = ''medium_standard''"
    by (auto simp: map_intent_to_design_choices_def bindE_Inr_iff get_lower_absent
        select_size_category_empty)
qed

theorem empty_intent_choices_witness:
  "str_split (str_lower ''happy'') \<noteq> [] \<and>
   map_sum id design_choices.truncate (fst (generate_sanrio_character_impl process_A ''happy'' (Some []))) = Inr fallback_choices \<and>
   map_of [(''mood'', PStr ''calm'')] ''size_implication'' = None \<and>
   map_sum id size_category (map_intent_to_design_choices process_A [(''mood'', PStr ''calm'')]) = Inr ''medium_standard''"
proof -
  have h: "str_split (str_lower ''happy'') \<noteq> []" by code_simp
  have m: "map_of [(''mood'', PStr ''calm'')] ''size_implication'' = None" by simp
  have "\<not> isl (map_intent_to_design_choices process_A [(''mood'', PStr ''calm'')])" by code_simp
  then obtain c where c: "map_intent_to_design_choices process_A [(''mood'', PStr ''calm'')] = Inr c"
    by (cases "map_intent_to_design_choices process_A [(''mood'', PStr ''calm'')]") auto
  from empty_intent_choices [of "''happy''" process_A] h
  obtain spec where "fst (generate_sanrio_character_impl process_A ''happy'' (Some [])) = Inr spec"
        "head_shape spec = ''large_round_orb''"
        "body_proportion spec = ''balanced_cute_50_50''"
        "facial_style spec = ''dot_eyes_curved_smile''"
        "color_triad spec = ''soft_pink_lavender_mint''"
        "size_category spec = ''small_plush_toy''" by blast
  moreover from empty_intent_choices [of _ process_A "[(''mood'', PStr ''calm'')]" c] m c
  have "size_category c = ''medium_standard''" by blast
  ultimately show ?thesis using h m c
    by (simp add: design_choices.truncate_def fallback_choices_def)
qed

subsection \<open>Rule precedence\<close>

text \<open>
  C9. For the intent whose weight feeling is "drooping, weighted" and whose primary shape
  is "drooping or curved", with no other field, the mapper, whenever it returns, gives the
  head shape \<^verbatim>\<open>elongated_teardrop\<close> (the rule for "droop" comes before the rule for
  "curved") and the body proportion \<^verbatim>\<open>body_focused_30_70\<close>.
\<close>

theorem drooping_weighted_intent:
  assumes "map_intent_to_design_choices g
             [(''weight_feeling'', PStr ''drooping, weighted''),
              (''primary_shape'', PStr ''drooping or curved'')] = Inr c"
  shows "head_shape c = ''elongated_teardrop'' \<and> body_proportion c = ''body_focused_30_70''"
proof -
  have w: "get_lower [(''weight_feeling'', PStr ''drooping, weighted''),
              (''primary_shape'', PStr ''drooping or curved'')] ''weight_feeling'' = Inr ''drooping, weighted''"
    by code_simp
  have p: "get_lower [(''weight_feeling'', PStr ''drooping, weighted''),
              (''primary_shape'', PStr ''drooping or curved'')] ''primary_shape'' = Inr ''drooping or curved''"
    by code_simp
  have z: "get_lower [(''weight_feeling'', PStr ''drooping, weighted''),
              (''primary_shape'', PStr ''drooping or curved'')] ''size_implication'' = Inr []"
    by code_simp
  have h: "select_head_shape i ''drooping, weighted'' ''drooping or curved'' = ''elongated_teardrop''" for i
    by (simp add: select_head_shape_def)
  have b: "select_body_proportion ''drooping, weighted'' [] = ''body_focused_30_70''"
    by (simp add: select_body_proportion_def)
  from assms show ?thesis
    unfolding map_intent_to_design_choices_def bindE_Inr_iff w p z
    by (auto simp: h b)
qed

theorem drooping_weighted_intent_witness:
  "map_sum id (\<lambda>c. (head_shape c, body_proportion c))
     (map_intent_to_design_choices process_A
             [(''weight_feeling'', PStr ''drooping, weighted''),
              (''primary_shape'', PStr ''drooping or curved'')]) = Inr (''elongated_teardrop'', ''body_focused_30_70'')"
proof -
  let ?d = "[(''weight_feeling'', PStr ''drooping, weighted''),
              (''primary_shape'', PStr ''drooping or curved'')]"
  have "\<not> isl (map_intent_to_design_choices process_A ?d)" by code_simp
  then obtain c where c: "map_intent_to_design_choices process_A ?d = Inr c"
    by (cases "map_intent_to_design_choices process_A ?d") auto
  from drooping_weighted_intent [OF c] c show ?thesis by simp
qed

subsection \<open>Loading\<close>

lemma flatten_types_other:
  "n \<notin> fst ` set ts \<Longrightarrow> map_of (flatten_types ts acc) n = map_of acc n"
  by (induction ts arbitrary: acc) (auto simp: update_conv' split: option.splits)

lemma flatten_types_lookup:
  "distinct (map fst ts) \<Longrightarrow> (n, td) \<in> set ts \<Longrightarrow> td_instances td = Some xs \<Longrightarrow>
   map_option instances (map_of (flatten_types ts acc) n) = Some xs"
proof (induction ts arbitrary: acc)
  case Nil
  then show ?case by simp
next
  case (Cons x ts)
  obtain n' td' where x: "x = (n', td')" by (cases x)
  show ?case
  proof (cases "(n, td) = x")
    case True
    with Cons.prems x have "n \<notin> fst ` set ts" by auto
    with True x Cons.prems(3) show ?thesis
      by (simp add: flatten_types_other update_conv')
  next
    case False
    with Cons.prems have "(n, td) \<in> set ts" "distinct (map fst ts)" by auto
    from Cons.IH [OF this(2) this(1) Cons.prems(3)] show ?thesis
      by (simp add: x)
  qed
qed

text \<open>The loader checks no instance list: when both files are read and hold their
  \<^verbatim>\<open>olog\<close> section, the import succeeds, and every declared dimension that has an
  instance list, empty or with repeated ids, is in the taxonomy with that list.\<close>

lemma load_keeps_instance_lists:
  assumes "olog a = Some sec" and "types sec = Some ts" and "distinct (map fst ts)"
    and "(n, td) \<in> set ts" and "td_instances td = Some xs" and "olog i = Some isec"
  shows "\<exists>g. module_init h (Parsed a) (Parsed i) = Inr g \<and>
             map_option instances (map_of (TAXONOMY g) n) = Some xs"
  using assms flatten_types_lookup [OF assms(3,4,5), of "[]"]
  by (simp add: module_init_def OlogLoader_init_def read_yaml_def bindE_simps get_taxonomy_def
      get_intentionality_instances_def Let_def get_default_def)

text \<open>
  C7. Loading a taxonomy document in which a declared dimension has zero instances, or
  declares one id twice, does not fail. Over the document in which \<^verbatim>\<open>HeadShape\<close>
  declares zero instances and \<^verbatim>\<open>ColorTriad\<close> declares one id twice, the import
  succeeds and the global \<^verbatim>\<open>TAXONOMY\<close> holds both lists as declared. Over the example
  taxonomy with the list of \<^verbatim>\<open>HeadShape\<close> emptied, the import succeeds with the empty
  list in the taxonomy, and the process it gives serves requests: the request with the
  prompt "happy" and the intent \<^verbatim>\<open>{"mood": "calm"}\<close> raises \<^verbatim>\<open>IndexError\<close> at
  \<^verbatim>\<open>head_shapes[0]\<close>.
\<close>

theorem load_accepts_empty_dimension:
  "map_sum id TAXONOMY
     (module_init hash_A (Parsed (aesthetic_of degenerate_types))
        (Parsed (intentionality_of example_catalogue))) =
   Inr [(''HeadShape'', \<lparr>description = [], instances = [], properties = []\<rparr>),
        (''ColorTriad'', \<lparr>description = [],
           instances = [''coral_mint_cream'', ''coral_mint_cream''], properties = []\<rparr>)] \<and>
   map_sum id (\<lambda>g. map_option instances (map_of (TAXONOMY g) ''HeadShape''))
     (module_init hash_A (Parsed (aesthetic_of empty_head_types))
        (Parsed (intentionality_of example_catalogue))) = Inr (Some []) \<and>
   map_sum id
     (\<lambda>g. fst (generate_sanrio_character_impl g ''happy'' (Some [(''mood'', PStr ''calm'')])))
     (module_init hash_A (Parsed (aesthetic_of empty_head_types))
        (Parsed (intentionality_of example_catalogue))) = Inr (Inl IndexError)"
  by code_simp

subsection \<open>Unknown archetypes\<close>

lemma module_init_serving: "module_init h fa fi = Inr g \<Longrightarrow> serving g"
  by (auto simp: module_init_def bindE_Inr_iff OlogLoader_init_def get_taxonomy_def
      get_intentionality_instances_def serving_def Let_def split: option.splits prod.splits sum.splits)

lemma generate_serving: "serving g \<Longrightarrow> serving (fst (snd (generate_sanrio_character_impl g p di)))"
  by (simp add: generate_process serving_def)

text \<open>
  C8. In a process as the import leaves it, the rule lookup for a name that is not in the
  archetype catalogue raises nothing: it returns the dict
  \<^verbatim>\<open>{"error": "Unknown archetype: <name>"}\<close> and leaves the process as it was.
\<close>

theorem unknown_archetype_result:
  assumes "serving g" and "name \<notin> fst ` set (ARCHETYPES g)"
  shows "get_archetype_rules g name = (Inr (Error_dict (''Unknown archetype: '' @ name)), g)"
proof -
  from assms(2) have "map_of (ARCHETYPES g) name = None" by (simp add: map_of_eq_None_iff)
  with assms(1) show ?thesis
    by (simp add: get_archetype_rules_def loader_get_archetype_rules_def
        get_intentionality_instances_def serving_def)
qed

theorem unknown_archetype_result_witness:
  "serving process_A \<and> ''nonexistent'' \<notin> fst ` set (ARCHETYPES process_A) \<and>
   get_archetype_rules process_A ''nonexistent'' =
     (Inr (Error_dict ''Unknown archetype: nonexistent''), process_A)"
proof -
  have s: "serving process_A" by (simp add: serving_def process_A_def loaded_process_def)
  have n: "''nonexistent'' \<notin> fst ` set (ARCHETYPES process_A)"
    by (simp add: process_A_def loaded_process_def example_catalogue_def)
  from unknown_archetype_result [OF s n] s n show ?thesis by simp
qed

lemma get_archetype_rules_process:
  "serving g \<Longrightarrow> snd (get_archetype_rules g name) = g"
  by (simp add: get_archetype_rules_def loader_get_archetype_rules_def
      get_intentionality_instances_def serving_def)

subsection \<open>The effects of a call\<close>

text \<open>
  C10, as the claim states it, fails: a call with the intent \<^verbatim>\<open>{"mood": "calm"}\<close> leaves
  the caller's record with the new key \<^verbatim>\<open>inferred_emotional_tone\<close>, and leaves the global
  random generator, which was in its initial state, seeded with the seed of the prompt.
\<close>

theorem generate_mutates_counterexample:
  "snd (snd (generate_sanrio_character_impl process_A ''happy'' (Some [(''mood'', PStr ''calm'')]))) =
     Some [(''mood'', PStr ''calm''),
           (''inferred_emotional_tone'', PStr ''joyful_character_archetype'')] \<and>
   random_state process_A = Os_entropy \<and>
   random_state (fst (snd (generate_sanrio_character_impl process_A ''happy''
     (Some [(''mood'', PStr ''calm'')])))) = Seeded 0"
  by code_simp

text \<open>
  C10, amended. A call leaves the loader, the taxonomy, the catalogue and the hash
  function of the process as they were. It has two effects outside the call: the global
  random generator is seeded with the seed of the prompt, and a design intent with at
  least one key holds, after the call, the inferred archetype under the key
  \<^verbatim>\<open>inferred_emotional_tone\<close>, every other key as before. An absent or empty intent is
  left as it was.
\<close>

theorem generate_frame:
  "OLOG_LOADER (fst (snd (generate_sanrio_character_impl g p di))) = OLOG_LOADER g \<and>
   TAXONOMY (fst (snd (generate_sanrio_character_impl g p di))) = TAXONOMY g \<and>
   ARCHETYPES (fst (snd (generate_sanrio_character_impl g p di))) = ARCHETYPES g \<and>
   str_hash (fst (snd (generate_sanrio_character_impl g p di))) = str_hash g \<and>
   random_state (fst (snd (generate_sanrio_character_impl g p di))) = Seeded (derive_seed g p) \<and>
   (\<not> truthy di \<longrightarrow> snd (snd (generate_sanrio_character_impl g p di)) = di) \<and>
   (di = Some d \<and> d \<noteq> [] \<longrightarrow>
      (\<exists>d'. snd (snd (generate_sanrio_character_impl g p di)) = Some d' \<and>
            map_of d' = (map_of d)(''inferred_emotional_tone'' \<mapsto>
               PStr (fst (infer_archetype (ARCHETYPES g) (str_lower p))))))"
  by (simp add: generate_process)
     (auto simp: generate_sanrio_character_impl_def Let_def store_tone_def truthy_def update_conv'
       split: prod.splits)

theorem generate_frame_witness:
  "\<not> truthy None \<and> snd (snd (generate_sanrio_character_impl process_A ''happy'' None)) = None \<and>
   map_option map_of (snd (snd (generate_sanrio_character_impl process_A ''happy''
       (Some [(''mood'', PStr ''calm'')])))) =
     Some ([''mood'' \<mapsto> PStr ''calm'', ''inferred_emotional_tone'' \<mapsto> PStr ''joyful_character_archetype''])"
proof -
  let ?d = "[(''mood'', PStr ''calm'')]"
  have t: "\<not> truthy None" by (simp add: truthy_def)
  have i: "fst (infer_archetype (ARCHETYPES process_A) (str_lower ''happy'')) = ''joyful_character_archetype''"
    by code_simp
  from generate_frame [of process_A "''happy''" None] t
  have a: "snd (snd (generate_sanrio_character_impl process_A ''happy'' None)) = None" by blast
  from generate_frame [of process_A "''happy''" "Some ?d" ?d]
  obtain d' where "snd (snd (generate_sanrio_character_impl process_A ''happy'' (Some ?d))) = Some d'"
    "map_of d' = (map_of ?d)(''inferred_emotional_tone'' \<mapsto>
               PStr (fst (infer_archetype (ARCHETYPES process_A) (str_lower ''happy''))))"
    by auto
  with t a i show ?thesis by simp
qed

end
